theory Spec2Isabelle
  imports Complex_Main
begin

section \<open>Python values\<close>

text \<open>
  The services and routes exchange JSON-like values: request bodies, metadata bags and
  adapter results are Python dicts with string keys. A dict is an association list in
  the order of the source's literal; lookups go through \<open>map_of\<close>. A Python \<open>str\<close> is
  a \<open>string\<close> with one \<open>char\<close> per character, which covers the code points below 256.
\<close>

datatype pyval =
    PNone
  | PBool bool
  | PInt int
  | PStr string
  | PList "pyval list"
  | PDict "(string \<times> pyval) list"

type_synonym dict = "(string \<times> pyval) list"

text \<open>\<open>d.get(k)\<close> and \<open>d.get(k, default)\<close>.\<close>

definition get :: "dict \<Rightarrow> string \<Rightarrow> pyval" where
  "get d k = (case map_of d k of None \<Rightarrow> PNone | Some v \<Rightarrow> v)"

definition get_default :: "dict \<Rightarrow> string \<Rightarrow> pyval \<Rightarrow> pyval" where
  "get_default d k dflt = (case map_of d k of None \<Rightarrow> dflt | Some v \<Rightarrow> v)"

text \<open>Truth value of a Python object, as \<open>if x\<close>, \<open>not x\<close>, \<open>all\<close> and \<open>or\<close> test it.\<close>

fun truthy :: "pyval \<Rightarrow> bool" where
  "truthy PNone = False"
| "truthy (PBool b) = b"
| "truthy (PInt i) = (i \<noteq> 0)"
| "truthy (PStr s) = (s \<noteq> [])"
| "truthy (PList xs) = (xs \<noteq> [])"
| "truthy (PDict d) = (d \<noteq> [])"

text \<open>\<open>a or b\<close>: the first operand when it is truthy, else the second.\<close>

definition py_or :: "pyval \<Rightarrow> pyval \<Rightarrow> pyval" where
  "py_or a b = (if truthy a then a else b)"

text \<open>\<open>int(x)\<close> on a float truncates towards zero.\<close>

definition py_int :: "real \<Rightarrow> int" where
  "py_int x = (if 0 \<le> x then \<lfloor>x\<rfloor> else \<lceil>x\<rceil>)"

section \<open>Strings\<close>

text \<open>\<open>str.lower()\<close> on the characters below code point 256.\<close>

definition lower_char :: "char \<Rightarrow> char" where
  "lower_char c =
     (let n = (of_char c :: nat)
      in if (65 \<le> n \<and> n \<le> 90) \<or> (192 \<le> n \<and> n \<le> 222 \<and> n \<noteq> 215)
         then char_of (n + 32) else c)"

definition lower :: "string \<Rightarrow> string" where
  "lower s = map lower_char s"

text \<open>\<open>s.split(sep)\<close> for a one-character separator: never an empty list.\<close>

fun split_str :: "char \<Rightarrow> string \<Rightarrow> string list" where
  "split_str sep [] = [[]]"
| "split_str sep (c # cs) =
     (if c = sep then [] # split_str sep cs
      else (case split_str sep cs of
              [] \<Rightarrow> [[c]]
            | w # ws \<Rightarrow> (c # w) # ws))"


section \<open>Dates and times\<close>

text \<open>
  A naive \<open>datetime\<close> holds a calendar date and a wall-clock time. The date is kept as
  its proleptic Gregorian ordinal (\<open>toordinal()\<close>: 1 for 0001-01-01, 3652059 for
  9999-12-31), through which Python itself adds a \<open>timedelta\<close>; the time fields are
  the object's own.
\<close>

record datetime =
  ordinal :: int
  hour :: int
  minute :: int
  second :: int
  microsecond :: int

record timedelta =
  days :: int
  seconds :: int
  microseconds :: int

datatype error = OverflowError

definition MAXORDINAL :: int where
  "MAXORDINAL = 3652059"

definition valid_datetime :: "datetime \<Rightarrow> bool" where
  "valid_datetime d \<longleftrightarrow>
     1 \<le> ordinal d \<and> ordinal d \<le> MAXORDINAL \<and>
     0 \<le> hour d \<and> hour d < 24 \<and>
     0 \<le> minute d \<and> minute d < 60 \<and>
     0 \<le> second d \<and> second d < 60 \<and>
     0 \<le> microsecond d \<and> microsecond d < 1000000"

text \<open>\<open>timedelta(hours=h)\<close> and \<open>timedelta(days=n)\<close>, for the small arguments used.\<close>

definition timedelta_hours :: "int \<Rightarrow> timedelta" where
  "timedelta_hours h = \<lparr>days = 0, seconds = h * 3600, microseconds = 0\<rparr>"

definition timedelta_days :: "int \<Rightarrow> timedelta" where
  "timedelta_days n = \<lparr>days = n, seconds = 0, microseconds = 0\<rparr>"

text \<open>
  \<open>dt + delta\<close>: the fields are summed, carried upwards, and the result is rejected
  with OverflowError when its date leaves the years 1 to 9999.
\<close>

definition add_timedelta :: "datetime \<Rightarrow> timedelta \<Rightarrow> error + datetime" where
  "add_timedelta dt delta =
     (let us = microsecond dt + microseconds delta;
          s = hour dt * 3600 + minute dt * 60 + second dt + seconds delta + us div 1000000;
          d = ordinal dt + days delta + s div 86400;
          secs = s mod 86400;
          rem = secs mod 3600
      in if 0 < d \<and> d \<le> MAXORDINAL
         then Inr \<lparr>ordinal = d, hour = secs div 3600, minute = rem div 60,
                   second = rem mod 60, microsecond = us mod 1000000\<rparr>
         else Inl OverflowError)"

text \<open>Comparison of two naive datetimes: field by field, the date first.\<close>

definition datetime_less :: "datetime \<Rightarrow> datetime \<Rightarrow> bool" where
  "datetime_less a b \<longleftrightarrow>
     ordinal a < ordinal b \<or> (ordinal a = ordinal b \<and>
      (hour a < hour b \<or> (hour a = hour b \<and>
       (minute a < minute b \<or> (minute a = minute b \<and>
        (second a < second b \<or> (second a = second b \<and>
         microsecond a < microsecond b)))))))"

definition datetime_le :: "datetime \<Rightarrow> datetime \<Rightarrow> bool" where
  "datetime_le a b \<longleftrightarrow> datetime_less a b \<or> a = b"

section \<open>Library functions taken as parameters\<close>

text \<open>
  The standard-library calls whose results the source only passes on are parameters of
  the model: \<open>json.dumps\<close>, \<open>datetime.fromisoformat\<close>, \<open>datetime.isoformat\<close>,
  \<open>datetime.timestamp\<close> (a float, or an exception for a date the platform's C library
  cannot convert), the clock \<open>datetime.utcnow()\<close>, and the text an f-string produces
  for a value that is not already a string.
\<close>

record env =
  json_dumps :: "pyval \<Rightarrow> string"
  fromisoformat :: "string \<Rightarrow> string + datetime"
  isoformat :: "datetime \<Rightarrow> string"
  timestamp :: "datetime \<Rightarrow> string + real"
  utcnow :: datetime
  format_value :: "pyval \<Rightarrow> string"

fun py_str :: "env \<Rightarrow> pyval \<Rightarrow> string" where
  "py_str e (PStr s) = s"
| "py_str e v = format_value e v"

section \<open>Platform adapters (services/social_media_service.py)\<close>

text \<open>
  The four adapter classes, each with the two attributes its constructor sets
  (\<open>api_base\<close> and \<open>upload_scope\<close> for YouTube, \<open>api_base\<close> and \<open>api_version\<close> for the
  others).
\<close>

datatype PlatformService =
    YouTubeService string string
  | InstagramService string string
  | FacebookService string string
  | TikTokService string string

definition YouTubeService_init :: PlatformService where
  "YouTubeService_init =
     YouTubeService ''https://www.googleapis.com/youtube/v3''
                    ''https://www.googleapis.com/auth/youtube.upload''"

definition InstagramService_init :: PlatformService where
  "InstagramService_init = InstagramService ''https://graph.instagram.com'' ''v23.0''"

definition FacebookService_init :: PlatformService where
  "FacebookService_init = FacebookService ''https://graph.facebook.com'' ''v23.0''"

definition TikTokService_init :: PlatformService where
  "TikTokService_init = TikTokService ''https://open.tiktokapis.com'' ''v2''"

text \<open>
  The two lines Instagram, Facebook and TikTok share:
  \<^verbatim>\<open>file_extension = media_file_path.split('.')[-1].lower()\<close> and
  \<^verbatim>\<open>is_video = file_extension in ['mp4', 'mov', 'avi']\<close>.
  \<open>split\<close> never returns an empty list, so \<open>[-1]\<close> is its last element.
\<close>

definition file_extension :: "string \<Rightarrow> string" where
  "file_extension media_file_path = lower (last (split_str (CHR ''.'') media_file_path))"

definition is_video :: "string \<Rightarrow> bool" where
  "is_video media_file_path \<longleftrightarrow>
     file_extension media_file_path \<in> set [''mp4'', ''mov'', ''avi'']"

subsection \<open>Requests the adapters build\<close>

text \<open>
  Each \<open>upload_media\<close> builds its platform request in local variables before it returns
  the stubbed response. The request is kept as a function of its own, so that what was
  built can be stated.
\<close>

definition youtube_video_metadata :: "dict \<Rightarrow> dict" where
  "youtube_video_metadata metadata =
     [(''snippet'', PDict
         [(''title'', get_default metadata ''title'' (PStr ''Untitled Video'')),
          (''description'', get_default metadata ''description'' (PStr '''')),
          (''tags'', get_default metadata ''hashtags'' (PList [])),
          (''categoryId'', get_default metadata ''category'' (PStr ''22''))]),
      (''status'', PDict
         [(''privacyStatus'', get_default metadata ''privacy'' (PStr ''private''))])]"

definition instagram_container_data :: "string \<Rightarrow> dict \<Rightarrow> string \<Rightarrow> dict" where
  "instagram_container_data media_file_path metadata access_token =
     (let container_data =
            [(''access_token'', PStr access_token),
             (''caption'', get_default metadata ''description'' (PStr ''''))]
      in if is_video media_file_path
         then container_data @ [(''video_url'', get metadata ''media_url''),
                                (''media_type'', PStr ''VIDEO'')]
         else container_data @ [(''image_url'', get metadata ''media_url'')])"

definition instagram_publish_data :: "string \<Rightarrow> dict" where
  "instagram_publish_data access_token =
     [(''creation_id'', PStr ''mock_instagram_container_id''),
      (''access_token'', PStr access_token)]"

text \<open>Facebook: the endpoint and the form data.\<close>

definition facebook_upload_request ::
  "env \<Rightarrow> string \<Rightarrow> string \<Rightarrow> string \<Rightarrow> dict \<Rightarrow> string \<Rightarrow> string \<times> dict" where
  "facebook_upload_request e api_base api_version media_file_path metadata access_token =
     (let page_id = get_default metadata ''page_id'' (PStr ''mock_page_id'')
      in if is_video media_file_path
         then (api_base @ ''/'' @ api_version @ ''/'' @ py_str e page_id @ ''/videos'',
               [(''description'', get_default metadata ''description'' (PStr '''')),
                (''access_token'', PStr access_token)])
         else (api_base @ ''/'' @ api_version @ ''/'' @ py_str e page_id @ ''/photos'',
               [(''url'', get metadata ''media_url''),
                (''message'', get_default metadata ''description'' (PStr '''')),
                (''access_token'', PStr access_token)]))"

definition tiktok_upload_request ::
  "string \<Rightarrow> string \<Rightarrow> string \<Rightarrow> dict \<Rightarrow> string \<times> dict" where
  "tiktok_upload_request api_base api_version media_file_path metadata =
     (if is_video media_file_path
      then (api_base @ ''/'' @ api_version @ ''/post/publish/video/init/'',
            [(''post_info'', PDict
                [(''title'', get_default metadata ''title'' (PStr '''')),
                 (''privacy_level'', get_default metadata ''privacy'' (PStr ''PUBLIC_TO_EVERYONE'')),
                 (''disable_duet'', get_default metadata ''disable_duet'' (PBool False)),
                 (''disable_comment'', get_default metadata ''disable_comment'' (PBool False)),
                 (''disable_stitch'', get_default metadata ''disable_stitch'' (PBool False)),
                 (''video_cover_timestamp_ms'', get_default metadata ''cover_timestamp'' (PInt 1000))]),
             (''source_info'', PDict
                [(''source'', PStr ''PULL_FROM_URL''),
                 (''video_url'', get metadata ''media_url'')])])
      else (api_base @ ''/'' @ api_version @ ''/post/publish/content/init/'',
            [(''post_info'', PDict
                [(''title'', get_default metadata ''title'' (PStr '''')),
                 (''description'', get_default metadata ''description'' (PStr '''')),
                 (''privacy_level'', get_default metadata ''privacy'' (PStr ''PUBLIC_TO_EVERYONE'')),
                 (''disable_comment'', get_default metadata ''disable_comment'' (PBool False)),
                 (''auto_add_music'', get_default metadata ''auto_add_music'' (PBool True))]),
             (''source_info'', PDict
                [(''source'', PStr ''PULL_FROM_URL''),
                 (''photo_cover_index'', PInt 1),
                 (''photo_images'', PList [get metadata ''media_url''])]),
             (''post_mode'', PStr ''DIRECT_POST''),
             (''media_type'', PStr ''PHOTO'')]))"

text \<open>
  Facebook's native scheduling payload. \<open>timestamp()\<close> may raise; the exception is
  the \<open>Inl\<close> branch, which \<open>schedule_media\<close> turns into a failure result.
\<close>

definition facebook_schedule_post_data ::
  "env \<Rightarrow> dict \<Rightarrow> string \<Rightarrow> datetime \<Rightarrow> string + dict" where
  "facebook_schedule_post_data e metadata access_token scheduled_time =
     (case timestamp e scheduled_time of
        Inl exn \<Rightarrow> Inl exn
      | Inr t \<Rightarrow> Inr
          [(''message'', get_default metadata ''description'' (PStr '''')),
           (''published'', PStr ''false''),
           (''scheduled_publish_time'', PInt (py_int t)),
           (''access_token'', PStr access_token)])"

subsection \<open>The three operations of an adapter\<close>

text \<open>
  An operation yields \<open>Inr result\<close>, or \<open>Inl message\<close> for an exception that leaves the
  adapter. The bodies below catch what they can raise, so they always yield \<open>Inr\<close>; the
  dispatcher guards the call all the same.
\<close>

fun upload_media ::
  "env \<Rightarrow> PlatformService \<Rightarrow> string \<Rightarrow> dict \<Rightarrow> string \<Rightarrow> string + dict" where
  "upload_media e (YouTubeService api_base upload_scope) media_file_path metadata access_token =
     (let video_metadata = youtube_video_metadata metadata
      in Inr [(''success'', PBool True),
              (''platform'', PStr ''youtube''),
              (''video_id'', PStr ''mock_youtube_video_id''),
              (''url'', PStr ''https://youtube.com/watch?v=mock_video_id''),
              (''message'', PStr ''Video uploaded successfully to YouTube'')])"
| "upload_media e (InstagramService api_base api_version) media_file_path metadata access_token =
     (let ig_user_id = get_default metadata ''ig_user_id'' (PStr ''mock_ig_user_id'');
          container_data = instagram_container_data media_file_path metadata access_token;
          publish_data = instagram_publish_data access_token
      in Inr [(''success'', PBool True),
              (''platform'', PStr ''instagram''),
              (''media_id'', PStr ''mock_instagram_media_id''),
              (''url'', PStr ''https://instagram.com/p/mock_media_id''),
              (''message'', PStr ''Media uploaded successfully to Instagram'')])"
| "upload_media e (FacebookService api_base api_version) media_file_path metadata access_token =
     (let page_id = get_default metadata ''page_id'' (PStr ''mock_page_id'');
          request = facebook_upload_request e api_base api_version media_file_path metadata access_token
      in Inr [(''success'', PBool True),
              (''platform'', PStr ''facebook''),
              (''post_id'', PStr ''mock_facebook_post_id''),
              (''url'', PStr (''https://facebook.com/'' @ py_str e page_id @ ''/posts/mock_post_id'')),
              (''message'', PStr ''Media uploaded successfully to Facebook'')])"
| "upload_media e (TikTokService api_base api_version) media_file_path metadata access_token =
     (let request = tiktok_upload_request api_base api_version media_file_path metadata
      in Inr [(''success'', PBool True),
              (''platform'', PStr ''tiktok''),
              (''publish_id'', PStr ''mock_tiktok_publish_id''),
              (''url'', PStr ''https://tiktok.com/@user/video/mock_video_id''),
              (''message'', PStr ''Media uploaded successfully to TikTok'')])"

fun schedule_media ::
  "env \<Rightarrow> PlatformService \<Rightarrow> string \<Rightarrow> dict \<Rightarrow> string \<Rightarrow> datetime \<Rightarrow> string + dict" where
  "schedule_media e (YouTubeService api_base upload_scope) media_file_path metadata access_token scheduled_time =
     Inr [(''success'', PBool True),
          (''platform'', PStr ''youtube''),
          (''scheduled_id'', PStr ''mock_youtube_scheduled_id''),
          (''scheduled_time'', PStr (isoformat e scheduled_time)),
          (''message'', PStr ''Video scheduled for YouTube upload'')]"
| "schedule_media e (InstagramService api_base api_version) media_file_path metadata access_token scheduled_time =
     Inr [(''success'', PBool True),
          (''platform'', PStr ''instagram''),
          (''scheduled_id'', PStr ''mock_instagram_scheduled_id''),
          (''scheduled_time'', PStr (isoformat e scheduled_time)),
          (''message'', PStr ''Media scheduled for Instagram upload'')]"
| "schedule_media e (FacebookService api_base api_version) media_file_path metadata access_token scheduled_time =
     (case facebook_schedule_post_data e metadata access_token scheduled_time of
        Inl exn \<Rightarrow>
          Inr [(''success'', PBool False),
               (''error'', PStr (''Facebook scheduling failed: '' @ exn))]
      | Inr post_data \<Rightarrow>
          Inr [(''success'', PBool True),
               (''platform'', PStr ''facebook''),
               (''scheduled_id'', PStr ''mock_facebook_scheduled_id''),
               (''scheduled_time'', PStr (isoformat e scheduled_time)),
               (''message'', PStr ''Media scheduled for Facebook upload'')])"
| "schedule_media e (TikTokService api_base api_version) media_file_path metadata access_token scheduled_time =
     Inr [(''success'', PBool True),
          (''platform'', PStr ''tiktok''),
          (''scheduled_id'', PStr ''mock_tiktok_scheduled_id''),
          (''scheduled_time'', PStr (isoformat e scheduled_time)),
          (''message'', PStr ''Media scheduled for TikTok upload'')]"

section \<open>The dispatcher (SocialMediaService)\<close>

record SocialMediaService =
  platforms :: "(string \<times> PlatformService) list"

definition SocialMediaService_init :: SocialMediaService where
  "SocialMediaService_init =
     \<lparr>platforms = [(''youtube'', YouTubeService_init),
                   (''instagram'', InstagramService_init),
                   (''facebook'', FacebookService_init),
                   (''tiktok'', TikTokService_init)]\<rparr>"

text \<open>
  The adapters are the system's only contact with a platform. Each call the dispatcher
  makes to one is appended to a log, threaded through the dispatcher, so that
  "no adapter is invoked" is a statement about a value.
\<close>

datatype adapter_call =
    UploadCall PlatformService
  | ScheduleCall PlatformService

definition upload_to_platform ::
  "env \<Rightarrow> SocialMediaService \<Rightarrow> string \<Rightarrow> string \<Rightarrow> dict \<Rightarrow> string \<Rightarrow>
   adapter_call list \<Rightarrow> dict \<times> adapter_call list" where
  "upload_to_platform e self platform media_file_path metadata access_token calls =
     (case map_of (platforms self) platform of
        None \<Rightarrow>
          ([(''success'', PBool False),
            (''error'', PStr (''Unsupported platform: '' @ platform))], calls)
      | Some service \<Rightarrow>
          (case upload_media e service media_file_path metadata access_token of
             Inr result \<Rightarrow> (result, calls @ [UploadCall service])
           | Inl exn \<Rightarrow>
               ([(''success'', PBool False), (''error'', PStr exn)],
                calls @ [UploadCall service])))"

definition schedule_upload ::
  "env \<Rightarrow> SocialMediaService \<Rightarrow> string \<Rightarrow> string \<Rightarrow> dict \<Rightarrow> string \<Rightarrow> datetime \<Rightarrow>
   adapter_call list \<Rightarrow> dict \<times> adapter_call list" where
  "schedule_upload e self platform media_file_path metadata access_token scheduled_time calls =
     (case map_of (platforms self) platform of
        None \<Rightarrow>
          ([(''success'', PBool False),
            (''error'', PStr (''Unsupported platform: '' @ platform))], calls)
      | Some service \<Rightarrow>
          (case schedule_media e service media_file_path metadata access_token scheduled_time of
             Inr result \<Rightarrow> (result, calls @ [ScheduleCall service])
           | Inl exn \<Rightarrow>
               ([(''success'', PBool False), (''error'', PStr exn)],
                calls @ [ScheduleCall service])))"

section \<open>Optimal posting times (ViralTimeService)\<close>

definition slot :: "string \<Rightarrow> string \<Rightarrow> string \<Rightarrow> dict" where
  "slot d t g = [(''day'', PStr d), (''time'', PStr t), (''engagement'', PStr g)]"

definition optimal_times_table :: "(string \<times> dict list) list" where
  "optimal_times_table =
     [(''youtube'',
         [slot ''weekdays'' ''14:00-16:00'' ''high'',
          slot ''weekdays'' ''20:00-22:00'' ''high'',
          slot ''weekend'' ''09:00-11:00'' ''medium'']),
      (''instagram'',
         [slot ''weekdays'' ''11:00-13:00'' ''high'',
          slot ''weekdays'' ''19:00-21:00'' ''high'',
          slot ''weekend'' ''10:00-12:00'' ''medium'']),
      (''facebook'',
         [slot ''weekdays'' ''13:00-15:00'' ''high'',
          slot ''weekdays'' ''19:00-21:00'' ''high'',
          slot ''weekend'' ''12:00-14:00'' ''medium'']),
      (''tiktok'',
         [slot ''weekdays'' ''06:00-10:00'' ''high'',
          slot ''weekdays'' ''19:00-21:00'' ''high'',
          slot ''weekend'' ''07:00-09:00'' ''medium''])]"

definition get_optimal_times :: "string \<Rightarrow> string \<Rightarrow> dict list" where
  "get_optimal_times p timezone =
     (case map_of optimal_times_table p of None \<Rightarrow> [] | Some slots \<Rightarrow> slots)"

text \<open>
  \<open>suggest_next_optimal_time\<close> reads the clock once (\<open>now = datetime.now()\<close>); the
  reading is the argument \<open>now\<close>. An OverflowError of the date arithmetic leaves the
  function.
\<close>

definition suggest_next_optimal_time :: "string \<Rightarrow> string \<Rightarrow> datetime \<Rightarrow> error + datetime" where
  "suggest_next_optimal_time p timezone now =
     (let optimal_times = get_optimal_times p timezone
      in if optimal_times = [] then add_timedelta now (timedelta_hours 2)
         else
           (case add_timedelta now (timedelta_hours 2) of
              Inl err \<Rightarrow> Inl err
            | Inr suggested_time \<Rightarrow>
                if hour suggested_time < 11 \<or> hour suggested_time > 21
                then
                  (let snapped = suggested_time\<lparr>hour := 11, minute := 0, second := 0,
                                                microsecond := 0\<rparr>
                   in if datetime_le snapped now
                      then add_timedelta snapped (timedelta_days 1)
                      else Inr snapped)
                else Inr suggested_time))"

section \<open>Content generation (services/ai_service.py)\<close>


datatype content = MockSocialContent dict string | ContentData pyval



section \<open>Stored rows (models/media.py)\<close>

text \<open>
  The primary keys are the fields \<open>mf_id\<close> and \<open>id'\<close>, and the owner of a media file
  is \<open>mf_user_id\<close>; every other field has its column's name.
\<close>

record MediaFile =
  mf_id :: int
  mf_user_id :: int
  filename :: string
  original_filename :: string
  file_path :: string
  file_type :: string
  file_size :: int
  mime_type :: string
  uploaded_at :: datetime

text \<open>
  Modelled from the spec: the column names \<open>platform_post_id\<close>, \<open>platform_url\<close> and
  \<open>published_at\<close> of a post record. The routes of routes/media.py write these three
  names; the class in models/media.py still declares the superseded \<open>post_id\<close> and
  \<open>posted_at\<close> and no URL column, and a \<open>scheduled_time\<close> that an immediate publish
  does not set. All other columns are those of models/media.py.
\<close>

record SocialMediaPost =
  id' :: int
  user_id :: int
  media_file_id :: int
  platform :: string
  title :: pyval
  description :: pyval
  hashtags :: pyval
  scheduled_time :: "datetime option"
  status :: string
  platform_post_id :: pyval
  platform_url :: pyval
  published_at :: "datetime option"
  error_message :: pyval
  created_at :: datetime
  updated_at :: datetime

text \<open>
  The database, with the log of adapter calls beside it. Of the users only the ids are
  kept. A new row gets the next free integer key.
\<close>

record world =
  users :: "int list"
  media_files :: "MediaFile list"
  posts :: "SocialMediaPost list"
  adapter_calls :: "adapter_call list"

definition next_id :: "SocialMediaPost list \<Rightarrow> int" where
  "next_id ps = fold max (map id' ps) 0 + 1"

definition get_media_file :: "world \<Rightarrow> int \<Rightarrow> MediaFile option" where
  "get_media_file w i = find (\<lambda>m. mf_id m = i) (media_files w)"

definition get_post :: "world \<Rightarrow> int \<Rightarrow> SocialMediaPost option" where
  "get_post w i = find (\<lambda>q. id' q = i) (posts w)"

text \<open>The row with key \<open>i\<close> is rewritten in place.\<close>

fun update_post :: "int \<Rightarrow> (SocialMediaPost \<Rightarrow> SocialMediaPost) \<Rightarrow> SocialMediaPost list \<Rightarrow> SocialMediaPost list" where
  "update_post i f [] = []"
| "update_post i f (q # qs) = (if id' q = i then f q # qs else q # update_post i f qs)"


section \<open>Routes that write post records (routes/media.py)\<close>

text \<open>
  A route takes the database and the fields it reads from the request body (\<open>None\<close>
  for an absent field) and returns the database and the response: the HTTP status and
  the JSON body. \<open>get_or_404\<close> answers 404 with the framework's own page.
  The dispatcher is the module's one \<open>SocialMediaService()\<close>.
\<close>

type_synonym response = "nat \<times> pyval"

definition not_found :: response where
  "not_found = (404, PNone)"

definition upload_to_platform_route ::
  "env \<Rightarrow> world \<Rightarrow> int option \<Rightarrow> string option \<Rightarrow> string option \<Rightarrow> dict option \<Rightarrow>
   world \<times> response" where
  "upload_to_platform_route e w req_media_file_id req_platform req_access_token req_metadata =
     (let metadata = (case req_metadata of None \<Rightarrow> [] | Some m \<Rightarrow> m)
      in case (req_media_file_id, req_platform, req_access_token) of
           (Some mid, Some pf, Some access_token) \<Rightarrow>
             if mid = 0 \<or> pf = [] \<or> access_token = []
             then (w, (400, PDict [(''error'',
                     PStr ''media_file_id, platform, and access_token are required'')]))
             else
               (case get_media_file w mid of
                  None \<Rightarrow> (w, not_found)
                | Some media_file \<Rightarrow>
                    (case upload_to_platform e SocialMediaService_init pf
                            (file_path media_file) metadata access_token (adapter_calls w) of
                       (result, calls) \<Rightarrow>
                         (case map_of result ''success'' of
                            None \<Rightarrow>
                              (w\<lparr>adapter_calls := calls\<rparr>,
                               (500, PDict [(''error'', PStr (''Upload failed: '' @
                                  [CHR 0x27] @ ''success'' @ [CHR 0x27]))]))
                          | Some ok \<Rightarrow>
                              if truthy ok
                              then
                                (let post =
                                   \<lparr>id' = next_id (posts w),
                                    user_id = mf_user_id media_file,
                                    media_file_id = mid,
                                    platform = pf,
                                    title = get_default metadata ''title'' (PStr ''''),
                                    description = get_default metadata ''description'' (PStr ''''),
                                    hashtags = PStr (json_dumps e
                                                 (get_default metadata ''hashtags'' (PList []))),
                                    scheduled_time = None,
                                    status = ''published'',
                                    platform_post_id =
                                      py_or (py_or (get result ''post_id'') (get result ''video_id''))
                                            (get result ''media_id''),
                                    platform_url = get_default result ''url'' (PStr ''''),
                                    published_at = Some (utcnow e),
                                    error_message = PNone,
                                    created_at = utcnow e,
                                    updated_at = utcnow e\<rparr>
                                 in (w\<lparr>posts := posts w @ [post], adapter_calls := calls\<rparr>,
                                     (200, PDict [(''success'', PBool True),
                                                  (''platform'', PStr pf),
                                                  (''result'', PDict result),
                                                  (''post_id'', PInt (id' post))])))
                              else (w\<lparr>adapter_calls := calls\<rparr>, (400, PDict result)))))
         | _ \<Rightarrow> (w, (400, PDict [(''error'',
                   PStr ''media_file_id, platform, and access_token are required'')])))"





text \<open>
  \<open>cancel_post\<close>. The commit of the changed row also sets \<open>updated_at\<close>, whose column
  is declared \<open>onupdate=datetime.utcnow\<close>.
\<close>

definition cancel_post :: "env \<Rightarrow> world \<Rightarrow> int \<Rightarrow> world \<times> response" where
  "cancel_post e w post_id =
     (case get_post w post_id of
        None \<Rightarrow> (w, not_found)
      | Some post \<Rightarrow>
          if status post \<noteq> ''scheduled''
          then (w, (400, PDict [(''error'', PStr ''Can only cancel scheduled posts'')]))
          else (w\<lparr>posts := update_post post_id
                              (\<lambda>q. q\<lparr>status := ''cancelled'', updated_at := utcnow e\<rparr>) (posts w)\<rparr>,
                (200, PDict [(''message'', PStr ''Post cancelled successfully'')])))"

text \<open>
  One request to one of the four routes that create a post record or change one. The
  other routes only read post records, except the deletion of a media file, which
  removes the file's records and sets no status.
\<close>

datatype request =
    UploadToPlatform "int option" "string option" "string option" "dict option"
  | SchedulePlatformUpload "int option" "string option" "string option" "dict option" "string option"
  | SchedulePost "int option" "int option" "string list option" "pyval option" "pyval option"
                 "pyval option" "string option"
  | CancelPost int


section \<open>Sample inputs\<close>

text \<open>
  Concrete values on which the theorems below are instantiated: a clock reading of
  2030-01-01 12:00 (ordinal 741078), library stand-ins that answer with fixed values,
  and a database holding one user and one media file.
\<close>

definition sample_time :: datetime where
  "sample_time = \<lparr>ordinal = 741078, hour = 12, minute = 0, second = 0, microsecond = 0\<rparr>"

definition sample_env :: env where
  "sample_env =
     \<lparr>json_dumps = (\<lambda>v. ''[]''),
      fromisoformat = (\<lambda>s. Inr sample_time),
      isoformat = (\<lambda>d. ''2030-01-01T12:00:00''),
      timestamp = (\<lambda>d. Inr 1893499200),
      utcnow = sample_time,
      format_value = (\<lambda>v. ''?'')\<rparr>"

definition sample_media_file :: MediaFile where
  "sample_media_file =
     \<lparr>mf_id = 1, mf_user_id = 7, filename = ''0a1b.mp4'', original_filename = ''clip.mp4'',
      file_path = ''uploads/0a1b.mp4'', file_type = ''video'', file_size = 1024,
      mime_type = ''video/mp4'', uploaded_at = sample_time\<rparr>"

definition sample_world :: world where
  "sample_world =
     \<lparr>users = [7], media_files = [sample_media_file], posts = [], adapter_calls = []\<rparr>"

definition sample_post :: "string \<Rightarrow> SocialMediaPost" where
  "sample_post st =
     \<lparr>id' = 1, user_id = 7, media_file_id = 1, platform = ''facebook'',
      title = PStr ''t'', description = PStr ''d'', hashtags = PStr ''[]'',
      scheduled_time = Some sample_time, status = st,
      platform_post_id = PStr ''mock_facebook_scheduled_id'', platform_url = PNone,
      published_at = None, error_message = PNone,
      created_at = sample_time, updated_at = sample_time\<rparr>"

definition sample_scheduled_world :: world where
  "sample_scheduled_world = sample_world\<lparr>posts := [sample_post ''scheduled'']\<rparr>"


section \<open>The dispatcher: supported and unsupported platform names\<close>

lemma lower_supported_names:
  "lower ''youtube'' = ''youtube''" "lower ''instagram'' = ''instagram''"
  "lower ''facebook'' = ''facebook''" "lower ''tiktok'' = ''tiktok''"
  by code_simp+

text \<open>
  C1, as stated, fails: the dispatcher looks the name up as it is given, so a
  mixed-case spelling of a supported name is answered as unsupported.
\<close>

theorem mixed_case_platform_unsupported:
  "lower ''YouTube'' \<in> set [''youtube'', ''instagram'', ''facebook'', ''tiktok''] \<and>
   get (fst (upload_to_platform sample_env SocialMediaService_init ''YouTube''
               ''uploads/0a1b.mp4'' [] ''token'' [])) ''success'' = PBool False"
  by code_simp

text \<open>
  C1, amended: for each of the four names in lowercase, and every media path, metadata
  bag and credential, \<open>upload_to_platform\<close> returns a result whose \<open>success\<close> is true,
  whose \<open>platform\<close> field is the requested name (which is its own lowercase form), and
  which carries a non-empty platform-issued id under one of \<open>video_id\<close>, \<open>media_id\<close>,
  \<open>post_id\<close>, \<open>publish_id\<close>.
\<close>

theorem upload_succeeds_for_supported_names:
  assumes "p \<in> set [''youtube'', ''instagram'', ''facebook'', ''tiktok'']"
  shows "\<exists>result calls'.
           upload_to_platform e SocialMediaService_init p media_file_path metadata access_token calls
             = (result, calls') \<and>
           get result ''success'' = PBool True \<and>
           get result ''platform'' = PStr p \<and>
           lower p = p \<and>
           (\<exists>k \<in> set [''video_id'', ''media_id'', ''post_id'', ''publish_id''].
              \<exists>i. get result k = PStr i \<and> i \<noteq> [])"
proof -
  from assms consider "p = ''youtube''" | "p = ''instagram''" | "p = ''facebook''" | "p = ''tiktok''"
    by auto
  then show ?thesis
  proof cases
    case 1
    then show ?thesis
      by (simp add: lower_supported_names upload_to_platform_def SocialMediaService_init_def
            YouTubeService_init_def get_def)
  next
    case 2
    then show ?thesis
      by (simp add: lower_supported_names upload_to_platform_def SocialMediaService_init_def
            InstagramService_init_def get_def)
  next
    case 3
    then show ?thesis
      by (simp add: lower_supported_names upload_to_platform_def SocialMediaService_init_def
            FacebookService_init_def get_def)
  next
    case 4
    then show ?thesis
      by (simp add: lower_supported_names upload_to_platform_def SocialMediaService_init_def
            TikTokService_init_def get_def)
  qed
qed

theorem upload_succeeds_for_supported_names_witness:
  "''tiktok'' \<in> set [''youtube'', ''instagram'', ''facebook'', ''tiktok''] \<and>
   (\<exists>result calls'.
      upload_to_platform sample_env SocialMediaService_init ''tiktok'' ''uploads/0a1b.mp4'' []
        ''token'' [] = (result, calls') \<and>
      get result ''success'' = PBool True \<and>
      get result ''platform'' = PStr ''tiktok'' \<and>
      lower ''tiktok'' = ''tiktok'' \<and>
      (\<exists>k \<in> set [''video_id'', ''media_id'', ''post_id'', ''publish_id''].
         \<exists>i. get result k = PStr i \<and> i \<noteq> []))"
proof -
  have h: "''tiktok'' \<in> set [''youtube'', ''instagram'', ''facebook'', ''tiktok'']" by simp
  show ?thesis
    using h upload_succeeds_for_supported_names
              [OF h, of sample_env "''uploads/0a1b.mp4''" "[]" "''token''" "[]"]
    by blast
qed


lemma unsupported_dispatch:
  assumes "p \<notin> fst ` set (platforms self)"
  shows "upload_to_platform e self p media_file_path metadata access_token calls =
           ([(''success'', PBool False), (''error'', PStr (''Unsupported platform: '' @ p))], calls)"
proof -
  from assms have "map_of (platforms self) p = None"
    by (simp add: map_of_eq_None_iff)
  then show ?thesis
    by (simp add: upload_to_platform_def)
qed

text \<open>
  C3: for a platform string that is not a key of the dispatcher's table,
  \<open>upload_to_platform\<close> returns exactly the two-field failure result with the message
  "Unsupported platform: " followed by the string, the log of adapter calls is as before,
  and the route leaves the database as it was: no post record is created.
\<close>

theorem unsupported_platform_rejected:
  assumes "p \<notin> fst ` set (platforms SocialMediaService_init)"
  shows "upload_to_platform e SocialMediaService_init p media_file_path metadata access_token calls =
           ([(''success'', PBool False), (''error'', PStr (''Unsupported platform: '' @ p))], calls)
         \<and> fst (upload_to_platform_route e w mid (Some p) tok md) = w"
proof -
  note disp = unsupported_dispatch [OF assms]
  have "fst (upload_to_platform_route e w mid (Some p) tok md) = w"
    by (simp add: upload_to_platform_route_def disp not_found_def split: option.splits)
  with disp show ?thesis by simp
qed

theorem unsupported_platform_rejected_witness:
  "''myspace'' \<notin> fst ` set (platforms SocialMediaService_init) \<and>
   upload_to_platform sample_env SocialMediaService_init ''myspace'' ''uploads/0a1b.mp4'' []
       ''token'' [] =
     ([(''success'', PBool False), (''error'', PStr ''Unsupported platform: myspace'')], []) \<and>
   fst (upload_to_platform_route sample_env sample_world (Some 1) (Some ''myspace'')
          (Some ''token'') None) = sample_world"
proof -
  have h: "''myspace'' \<notin> fst ` set (platforms SocialMediaService_init)"
    by (simp add: SocialMediaService_init_def)
  show ?thesis
    using h unsupported_platform_rejected
              [OF h, of sample_env "''uploads/0a1b.mp4''" "[]" "''token''" "[]"
                 sample_world "Some 1" "Some ''token''" None]
    by simp
qed

section \<open>Scheduling\<close>

lemma schedule_without_native_support:
  assumes "p \<in> set [''youtube'', ''instagram'', ''tiktok'']"
  shows "\<exists>result calls' token.
           schedule_upload e SocialMediaService_init p media_file_path metadata access_token
             scheduled_datetime calls = (result, calls') \<and>
           get result ''success'' = PBool True \<and>
           get result ''scheduled_id'' = PStr token \<and> token \<noteq> [] \<and>
           map_of result ''error'' = None"
proof -
  from assms consider "p = ''youtube''" | "p = ''instagram''" | "p = ''tiktok''"
    by auto
  then show ?thesis
  proof cases
    case 1
    then show ?thesis
      by (simp add: schedule_upload_def SocialMediaService_init_def YouTubeService_init_def get_def)
  next
    case 2
    then show ?thesis
      by (simp add: schedule_upload_def SocialMediaService_init_def InstagramService_init_def get_def)
  next
    case 3
    then show ?thesis
      by (simp add: schedule_upload_def SocialMediaService_init_def TikTokService_init_def get_def)
  qed
qed

lemma schedule_facebook:
  assumes "timestamp e scheduled_datetime = Inr t"
  shows "facebook_schedule_post_data e metadata access_token scheduled_datetime =
           Inr [(''message'', get_default metadata ''description'' (PStr '''')),
                (''published'', PStr ''false''),
                (''scheduled_publish_time'', PInt (py_int t)),
                (''access_token'', PStr access_token)]"
    and "\<exists>result calls' token.
           schedule_upload e SocialMediaService_init ''facebook'' media_file_path metadata
             access_token scheduled_datetime calls = (result, calls') \<and>
           get result ''success'' = PBool True \<and>
           get result ''scheduled_id'' = PStr token \<and> token \<noteq> []"
  using assms
  by (simp_all add: facebook_schedule_post_data_def schedule_upload_def SocialMediaService_init_def
        FacebookService_init_def get_def)

text \<open>
  C6: for every scheduled time, media path, metadata bag and credential,
  \<open>schedule_upload\<close> on \<open>youtube\<close>, \<open>instagram\<close> or \<open>tiktok\<close> returns a result with
  \<open>success\<close> true, a non-empty \<open>scheduled_id\<close> token and no \<open>error\<close> field; and where
  \<open>scheduled_time.timestamp()\<close> has the value \<open>t\<close>, the payload the Facebook adapter
  builds has \<open>scheduled_publish_time = int(t)\<close>, and the Facebook schedule succeeds
  with a token as well.
\<close>

theorem schedule_results:
  "(p \<in> set [''youtube'', ''instagram'', ''tiktok''] \<longrightarrow>
      (\<exists>result calls' token.
         schedule_upload e SocialMediaService_init p media_file_path metadata access_token
           scheduled_datetime calls = (result, calls') \<and>
         get result ''success'' = PBool True \<and>
         get result ''scheduled_id'' = PStr token \<and> token \<noteq> [] \<and>
         map_of result ''error'' = None)) \<and>
   (timestamp e scheduled_datetime = Inr t \<longrightarrow>
      facebook_schedule_post_data e metadata access_token scheduled_datetime =
        Inr [(''message'', get_default metadata ''description'' (PStr '''')),
             (''published'', PStr ''false''),
             (''scheduled_publish_time'', PInt (py_int t)),
             (''access_token'', PStr access_token)] \<and>
      (\<exists>result calls' token.
         schedule_upload e SocialMediaService_init ''facebook'' media_file_path metadata
           access_token scheduled_datetime calls = (result, calls') \<and>
         get result ''success'' = PBool True \<and>
         get result ''scheduled_id'' = PStr token \<and> token \<noteq> []))"
  using schedule_without_native_support [of p e media_file_path metadata access_token
          scheduled_datetime calls]
        schedule_facebook(1) [of e scheduled_datetime t metadata access_token]
        schedule_facebook(2) [of e scheduled_datetime t media_file_path metadata access_token calls]
  by blast

theorem schedule_results_witness:
  "''instagram'' \<in> set [''youtube'', ''instagram'', ''tiktok''] \<and>
   timestamp sample_env sample_time = Inr 1893499200 \<and>
   (\<exists>result calls' token.
      schedule_upload sample_env SocialMediaService_init ''instagram'' ''uploads/0a1b.mp4'' []
        ''token'' sample_time [] = (result, calls') \<and>
      get result ''success'' = PBool True \<and>
      get result ''scheduled_id'' = PStr token \<and> token \<noteq> [] \<and>
      map_of result ''error'' = None) \<and>
   facebook_schedule_post_data sample_env [] ''token'' sample_time =
     Inr [(''message'', PStr ''''),
          (''published'', PStr ''false''),
          (''scheduled_publish_time'', PInt 1893499200),
          (''access_token'', PStr ''token'')]"
proof -
  have h1: "''instagram'' \<in> set [''youtube'', ''instagram'', ''tiktok'']" by simp
  have h2: "timestamp sample_env sample_time = Inr 1893499200"
    by (simp add: sample_env_def)
  have i: "py_int 1893499200 = 1893499200"
    by (simp add: py_int_def)
  show ?thesis
    using h1 h2 i
      schedule_results [of "''instagram''" sample_env "''uploads/0a1b.mp4''" "[]" "''token''"
                           sample_time "[]" 1893499200]
    by (simp add: get_default_def)
qed

section \<open>Content generation\<close>



section \<open>Post records: cancelling\<close>

lemma find_update_post:
  assumes "find (\<lambda>q. id' q = i) ps = Some q" and "id' (f q) = i"
  shows "find (\<lambda>q. id' q = i) (update_post i f ps) = Some (f q)"
  using assms by (induction ps) (auto split: if_splits)

lemma length_update_post: "length (update_post i f ps) = length ps"
  by (induction ps) auto

lemma nth_update_post:
  "n < length ps \<Longrightarrow> id' (ps ! n) \<noteq> i \<Longrightarrow> update_post i f ps ! n = ps ! n"
proof (induction ps arbitrary: n)
  case Nil
  then show ?case by simp
next
  case (Cons a ps)
  then show ?case by (cases n) auto
qed


text \<open>
  C9: cancelling a post whose status is \<open>scheduled\<close> rewrites that one row to the same
  row with \<open>status = 'cancelled'\<close> and a fresh \<open>updated_at\<close>; its key, user id, media
  reference, platform, title, description, hashtags, scheduled time, platform-issued id,
  URL, publish time, error text and creation time are unchanged, and so are all other
  rows, the users, the media files and the log of adapter calls.
\<close>

theorem cancel_changes_only_status:
  assumes "get_post w i = Some q" and "status q = ''scheduled''"
  shows "\<exists>w' resp q'.
           cancel_post e w i = (w', resp) \<and>
           get_post w' i = Some q' \<and>
           q' = q\<lparr>status := ''cancelled'', updated_at := utcnow e\<rparr> \<and>
           id' q' = id' q \<and> user_id q' = user_id q \<and> media_file_id q' = media_file_id q \<and>
           platform q' = platform q \<and> title q' = title q \<and> description q' = description q \<and>
           hashtags q' = hashtags q \<and> scheduled_time q' = scheduled_time q \<and>
           platform_post_id q' = platform_post_id q \<and> platform_url q' = platform_url q \<and>
           published_at q' = published_at q \<and> error_message q' = error_message q \<and>
           created_at q' = created_at q \<and>
           length (posts w') = length (posts w) \<and>
           (\<forall>n < length (posts w). id' (posts w ! n) \<noteq> i \<longrightarrow> posts w' ! n = posts w ! n) \<and>
           users w' = users w \<and> media_files w' = media_files w \<and>
           adapter_calls w' = adapter_calls w"
proof -
  let ?f = "\<lambda>q. q\<lparr>status := ''cancelled'', updated_at := utcnow e\<rparr>"
  let ?w' = "w\<lparr>posts := update_post i ?f (posts w)\<rparr>"
  from assms(1) have fnd: "find (\<lambda>q. id' q = i) (posts w) = Some q"
    by (simp add: get_post_def)
  then have idq: "id' q = i"
    by (auto simp: find_Some_iff)
  have run: "cancel_post e w i =
               (?w', (200, PDict [(''message'', PStr ''Post cancelled successfully'')]))"
    using assms by (simp add: cancel_post_def)
  have got: "get_post ?w' i = Some (?f q)"
    using find_update_post [OF fnd, of ?f] idq by (simp add: get_post_def)
  have rest: "\<forall>n < length (posts w). id' (posts w ! n) \<noteq> i \<longrightarrow> posts ?w' ! n = posts w ! n"
    by (simp add: nth_update_post)
  show ?thesis
    using run got rest by (simp add: length_update_post)
qed

theorem cancel_changes_only_status_witness:
  "get_post sample_scheduled_world 1 = Some (sample_post ''scheduled'') \<and>
   status (sample_post ''scheduled'') = ''scheduled'' \<and>
   cancel_post sample_env sample_scheduled_world 1 =
     (sample_world\<lparr>posts := [(sample_post ''scheduled'')\<lparr>status := ''cancelled''\<rparr>]\<rparr>,
      (200, PDict [(''message'', PStr ''Post cancelled successfully'')])) \<and>
   (\<exists>w' resp q'.
      cancel_post sample_env sample_scheduled_world 1 = (w', resp) \<and>
      get_post w' 1 = Some q' \<and>
      q' = (sample_post ''scheduled'')\<lparr>status := ''cancelled'', updated_at := utcnow sample_env\<rparr> \<and>
      user_id q' = 7 \<and> platform q' = ''facebook'' \<and>
      platform_post_id q' = PStr ''mock_facebook_scheduled_id'' \<and>
      length (posts w') = 1)"
proof -
  have h1: "get_post sample_scheduled_world 1 = Some (sample_post ''scheduled'')"
    by (simp add: get_post_def sample_scheduled_world_def sample_post_def)
  have h2: "status (sample_post ''scheduled'') = ''scheduled''"
    by (simp add: sample_post_def)
  have run: "cancel_post sample_env sample_scheduled_world 1 =
     (sample_world\<lparr>posts := [(sample_post ''scheduled'')\<lparr>status := ''cancelled''\<rparr>]\<rparr>,
      (200, PDict [(''message'', PStr ''Post cancelled successfully'')]))"
    by (simp add: cancel_post_def get_post_def sample_scheduled_world_def sample_post_def
          sample_env_def sample_time_def)
  have vals: "user_id (sample_post ''scheduled'') = 7"
    "platform (sample_post ''scheduled'') = ''facebook''"
    "platform_post_id (sample_post ''scheduled'') = PStr ''mock_facebook_scheduled_id''"
    "length (posts sample_scheduled_world) = 1"
    by (simp_all add: sample_post_def sample_scheduled_world_def)
  from cancel_changes_only_status [OF h1 h2, of sample_env]
  obtain w' resp q' where
    "cancel_post sample_env sample_scheduled_world 1 = (w', resp)"
    "get_post w' 1 = Some q'"
    "q' = (sample_post ''scheduled'')\<lparr>status := ''cancelled'', updated_at := utcnow sample_env\<rparr>"
    "user_id q' = user_id (sample_post ''scheduled'')"
    "platform q' = platform (sample_post ''scheduled'')"
    "platform_post_id q' = platform_post_id (sample_post ''scheduled'')"
    "length (posts w') = length (posts sample_scheduled_world)"
    by blast
  with vals have "\<exists>w' resp q'.
      cancel_post sample_env sample_scheduled_world 1 = (w', resp) \<and>
      get_post w' 1 = Some q' \<and>
      q' = (sample_post ''scheduled'')\<lparr>status := ''cancelled'', updated_at := utcnow sample_env\<rparr> \<and>
      user_id q' = 7 \<and> platform q' = ''facebook'' \<and>
      platform_post_id q' = PStr ''mock_facebook_scheduled_id'' \<and>
      length (posts w') = 1"
    by metis
  with h1 h2 run show ?thesis by blast
qed

section \<open>Post records: status transitions\<close>











section \<open>Optimal posting time\<close>

lemma divmod_unique:
  fixes a b q r :: int
  assumes "a = b * q + r" "0 \<le> r" "r < b"
  shows "a div b = q" and "a mod b = r"
  using assms by (simp_all add: int_div_pos_eq int_mod_pos_eq)

lemma divmod_2h_early:
  fixes h m s :: int
  assumes "0 \<le> h" "h < 22" "0 \<le> m" "m < 60" "0 \<le> s" "s < 60"
  shows "(h * 3600 + m * 60 + s + 7200) div 86400 = 0"
    and "(h * 3600 + m * 60 + s + 7200) mod 86400 = (h + 2) * 3600 + m * 60 + s"
proof -
  have b: "0 \<le> (h + 2) * 3600 + m * 60 + s" "(h + 2) * 3600 + m * 60 + s < 86400"
    using assms by auto
  have e: "h * 3600 + m * 60 + s + 7200 = 86400 * 0 + ((h + 2) * 3600 + m * 60 + s)"
    by simp
  show "(h * 3600 + m * 60 + s + 7200) div 86400 = 0"
    using divmod_unique(1) [OF e b] .
  show "(h * 3600 + m * 60 + s + 7200) mod 86400 = (h + 2) * 3600 + m * 60 + s"
    using divmod_unique(2) [OF e b] .
qed

lemma divmod_2h_late:
  fixes h m s :: int
  assumes "22 \<le> h" "h < 24" "0 \<le> m" "m < 60" "0 \<le> s" "s < 60"
  shows "(h * 3600 + m * 60 + s + 7200) div 86400 = 1"
    and "(h * 3600 + m * 60 + s + 7200) mod 86400 = (h - 22) * 3600 + m * 60 + s"
proof -
  have b: "0 \<le> (h - 22) * 3600 + m * 60 + s" "(h - 22) * 3600 + m * 60 + s < 86400"
    using assms by auto
  have e: "h * 3600 + m * 60 + s + 7200 = 86400 * 1 + ((h - 22) * 3600 + m * 60 + s)"
    by simp
  show "(h * 3600 + m * 60 + s + 7200) div 86400 = 1"
    using divmod_unique(1) [OF e b] .
  show "(h * 3600 + m * 60 + s + 7200) mod 86400 = (h - 22) * 3600 + m * 60 + s"
    using divmod_unique(2) [OF e b] .
qed

lemma split_hms:
  fixes h m s :: int
  assumes "0 \<le> h" "0 \<le> m" "m < 60" "0 \<le> s" "s < 60"
  shows "(h * 3600 + m * 60 + s) div 3600 = h"
    and "(h * 3600 + m * 60 + s) mod 3600 div 60 = m"
    and "(h * 3600 + m * 60 + s) mod 3600 mod 60 = s"
proof -
  have b: "0 \<le> m * 60 + s" "m * 60 + s < 3600" using assms by auto
  have e: "h * 3600 + m * 60 + s = 3600 * h + (m * 60 + s)" by simp
  show "(h * 3600 + m * 60 + s) div 3600 = h"
    using divmod_unique(1) [OF e b] .
  have r: "(h * 3600 + m * 60 + s) mod 3600 = m * 60 + s"
    using divmod_unique(2) [OF e b] .
  have e2: "m * 60 + s = 60 * m + s" by simp
  show "(h * 3600 + m * 60 + s) mod 3600 div 60 = m"
    unfolding r using divmod_unique(1) [OF e2 assms(4,5)] .
  show "(h * 3600 + m * 60 + s) mod 3600 mod 60 = s"
    unfolding r using divmod_unique(2) [OF e2 assms(4,5)] .
qed


lemma plus_two_hours:
  assumes "valid_datetime now"
  shows "add_timedelta now (timedelta_hours 2) =
           (if hour now < 22 then Inr (now\<lparr>hour := hour now + 2\<rparr>)
            else if ordinal now < MAXORDINAL
                 then Inr (now\<lparr>ordinal := ordinal now + 1, hour := hour now - 22\<rparr>)
                 else Inl OverflowError)"
proof -
  obtain d h m s u where now:
    "now = \<lparr>ordinal = d, hour = h, minute = m, second = s, microsecond = u\<rparr>"
    by (cases now) auto
  from assms now have v: "1 \<le> d" "d \<le> MAXORDINAL" "0 \<le> h" "h < 24" "0 \<le> m" "m < 60"
    "0 \<le> s" "s < 60" "0 \<le> u" "u < 1000000"
    by (simp_all add: valid_datetime_def)
  have u0: "u div 1000000 = 0" "u mod 1000000 = u" using v by simp_all
  define S where "S = h * 3600 + m * 60 + s + 7200"
  have unf: "add_timedelta now (timedelta_hours 2) =
      (if 0 < d + S div 86400 \<and> d + S div 86400 \<le> MAXORDINAL
       then Inr \<lparr>ordinal = d + S div 86400, hour = S mod 86400 div 3600,
                 minute = S mod 86400 mod 3600 div 60,
                 second = S mod 86400 mod 3600 mod 60, microsecond = u\<rparr>
       else Inl OverflowError)"
    by (simp add: add_timedelta_def timedelta_hours_def now u0 Let_def S_def)
  show ?thesis
  proof (cases "h < 22")
    case True
    have a: "S div 86400 = 0" "S mod 86400 = (h + 2) * 3600 + m * 60 + s"
      unfolding S_def using divmod_2h_early [OF v(3) True v(5-8)] by simp_all
    have h2: "0 \<le> h + 2" using v by simp
    note b = split_hms [OF h2 v(5-8)]
    show ?thesis
      unfolding unf a b using True v by (simp add: now)
  next
    case False
    then have hl: "22 \<le> h" by simp
    have a: "S div 86400 = 1" "S mod 86400 = (h - 22) * 3600 + m * 60 + s"
      unfolding S_def using divmod_2h_late [OF hl v(4-8)] by simp_all
    have h2: "0 \<le> h - 22" using hl by simp
    note b = split_hms [OF h2 v(5-8)]
    show ?thesis
      unfolding unf a b using False v by (auto simp add: now)
  qed
qed

lemma plus_one_day:
  assumes "valid_datetime dt"
  shows "add_timedelta dt (timedelta_days 1) =
           (if ordinal dt < MAXORDINAL then Inr (dt\<lparr>ordinal := ordinal dt + 1\<rparr>)
            else Inl OverflowError)"
proof -
  obtain d h m s u where dt:
    "dt = \<lparr>ordinal = d, hour = h, minute = m, second = s, microsecond = u\<rparr>"
    by (cases dt) auto
  from assms dt have v: "1 \<le> d" "d \<le> MAXORDINAL" "0 \<le> h" "h < 24" "0 \<le> m" "m < 60"
    "0 \<le> s" "s < 60" "0 \<le> u" "u < 1000000"
    by (simp_all add: valid_datetime_def)
  have u0: "u div 1000000 = 0" "u mod 1000000 = u" using v by simp_all
  define S where "S = h * 3600 + m * 60 + s"
  have unf: "add_timedelta dt (timedelta_days 1) =
      (if 0 < d + 1 + S div 86400 \<and> d + 1 + S div 86400 \<le> MAXORDINAL
       then Inr \<lparr>ordinal = d + 1 + S div 86400, hour = S mod 86400 div 3600,
                 minute = S mod 86400 mod 3600 div 60,
                 second = S mod 86400 mod 3600 mod 60, microsecond = u\<rparr>
       else Inl OverflowError)"
    by (simp add: add_timedelta_def timedelta_days_def dt u0 Let_def S_def)
  have bS: "0 \<le> S" "S < 86400" unfolding S_def using v by auto
  have a: "S div 86400 = 0" "S mod 86400 = h * 3600 + m * 60 + s"
    using bS by (simp_all add: S_def)
  note b = split_hms [OF v(3) v(5-8)]
  show ?thesis
    unfolding unf a b using v by (auto simp add: dt)
qed


lemma no_table_entries:
  "get_optimal_times p tz = [] \<longleftrightarrow> p \<notin> set [''youtube'', ''instagram'', ''facebook'', ''tiktok'']"
  by (simp add: get_optimal_times_def optimal_times_table_def)

lemma not_le_iff_less: "\<not> datetime_le a b \<longleftrightarrow> datetime_less b a"
  by (cases a; cases b) (auto simp: datetime_le_def datetime_less_def)

lemma suggest_unfolded:
  "suggest_next_optimal_time p tz now =
     (case add_timedelta now (timedelta_hours 2) of
        Inl err \<Rightarrow> Inl err
      | Inr candidate \<Rightarrow>
          if get_optimal_times p tz = [] then Inr candidate
          else if 11 \<le> hour candidate \<and> hour candidate \<le> 21 then Inr candidate
          else (let snapped = candidate\<lparr>hour := 11, minute := 0, second := 0, microsecond := 0\<rparr>
                in if datetime_less now snapped then Inr snapped
                   else add_timedelta snapped (timedelta_days 1)))"
  by (auto simp: suggest_next_optimal_time_def Let_def not_le_iff_less [symmetric]
           split: sum.splits)

lemma suggest_closed:
  assumes "valid_datetime now"
  shows "suggest_next_optimal_time p tz now =
     (if get_optimal_times p tz = [] \<or> (9 \<le> hour now \<and> hour now \<le> 19)
      then (if hour now < 22 then Inr (now\<lparr>hour := hour now + 2\<rparr>)
            else if ordinal now < MAXORDINAL
                 then Inr (now\<lparr>ordinal := ordinal now + 1, hour := hour now - 22\<rparr>)
                 else Inl OverflowError)
      else if hour now < 9
      then Inr (now\<lparr>hour := 11, minute := 0, second := 0, microsecond := 0\<rparr>)
      else if ordinal now < MAXORDINAL
      then Inr (now\<lparr>ordinal := ordinal now + 1, hour := 11, minute := 0, second := 0,
                    microsecond := 0\<rparr>)
      else Inl OverflowError)"
proof -
  obtain d h m s u where now:
    "now = \<lparr>ordinal = d, hour = h, minute = m, second = s, microsecond = u\<rparr>"
    by (cases now) auto
  from assms now have v: "1 \<le> d" "d \<le> MAXORDINAL" "0 \<le> h" "h < 24" "0 \<le> m" "m < 60"
    "0 \<le> s" "s < 60" "0 \<le> u" "u < 1000000"
    by (simp_all add: valid_datetime_def)
  have snap_valid: "valid_datetime \<lparr>ordinal = d, hour = 11, minute = 0, second = 0, microsecond = 0\<rparr>"
    using v by (simp add: valid_datetime_def)
  note day = plus_one_day [OF snap_valid]
  note two = plus_two_hours [OF assms]
  consider (early) "h < 9" | (mid) "9 \<le> h" "h \<le> 19" | (eve) "20 \<le> h" "h < 22" | (late) "22 \<le> h"
    by linarith
  then show ?thesis
  proof cases
    case early
    then show ?thesis
      unfolding suggest_unfolded two
      by (simp add: now Let_def datetime_less_def)
  next
    case mid
    then show ?thesis
      unfolding suggest_unfolded two
      by (simp add: now Let_def)
  next
    case eve
    then show ?thesis
      unfolding suggest_unfolded two
      using day by (simp add: now Let_def datetime_less_def)
  next
    case late
    with v show ?thesis
      unfolding suggest_unfolded two
      by (simp add: now Let_def datetime_less_def)
  qed
qed

lemma suggest_after_now:
  assumes "valid_datetime now" and "suggest_next_optimal_time p tz now = Inr t"
  shows "datetime_less now t \<and> valid_datetime t"
proof -
  obtain d h m s u where now:
    "now = \<lparr>ordinal = d, hour = h, minute = m, second = s, microsecond = u\<rparr>"
    by (cases now) auto
  from assms(1) now have v: "1 \<le> d" "d \<le> MAXORDINAL" "0 \<le> h" "h < 24" "0 \<le> m" "m < 60"
    "0 \<le> s" "s < 60" "0 \<le> u" "u < 1000000"
    by (simp_all add: valid_datetime_def)
  from assms(2) show ?thesis
    unfolding suggest_closed [OF assms(1)] using v
    by (auto simp: now datetime_less_def valid_datetime_def split: if_splits)
qed

lemma suggest_returns:
  assumes "valid_datetime now" and "ordinal now < MAXORDINAL"
  shows "\<exists>t. suggest_next_optimal_time p tz now = Inr t"
  unfolding suggest_closed [OF assms(1)] using assms(2) by simp

text \<open>
  C5: \<open>suggest_next_optimal_time\<close> returns \<open>now + 2 hours\<close> when the platform has no
  table entries; otherwise \<open>now + 2 hours\<close> when that candidate's hour lies in
  \<open>[11, 21]\<close>, else the candidate with its time set to 11:00:00.000000, and one day
  more when that snapped time is not strictly after \<open>now\<close>. The sums are Python's
  \<open>datetime + timedelta\<close>. The platforms without table entries are those other than
  the four names. For a clock reading before the last representable day the value is,
  in closed form: two hours later for an unknown platform or an hour from 9 to 19,
  11:00 of the same day for an hour before 9, and 11:00 of the next day for an hour
  from 20 on.
\<close>

theorem suggest_next_optimal_time_value:
  "suggest_next_optimal_time p tz now =
     (case add_timedelta now (timedelta_hours 2) of
        Inl err \<Rightarrow> Inl err
      | Inr candidate \<Rightarrow>
          if get_optimal_times p tz = [] then Inr candidate
          else if 11 \<le> hour candidate \<and> hour candidate \<le> 21 then Inr candidate
          else (let snapped = candidate\<lparr>hour := 11, minute := 0, second := 0, microsecond := 0\<rparr>
                in if datetime_less now snapped then Inr snapped
                   else add_timedelta snapped (timedelta_days 1))) \<and>
   (get_optimal_times p tz = [] \<longleftrightarrow>
      p \<notin> set [''youtube'', ''instagram'', ''facebook'', ''tiktok'']) \<and>
   (valid_datetime now \<and> ordinal now < MAXORDINAL \<longrightarrow>
      suggest_next_optimal_time p tz now = Inr
        (if get_optimal_times p tz = [] \<or> (9 \<le> hour now \<and> hour now \<le> 19)
         then (if hour now < 22 then now\<lparr>hour := hour now + 2\<rparr>
               else now\<lparr>ordinal := ordinal now + 1, hour := hour now - 22\<rparr>)
         else if hour now < 9
         then now\<lparr>hour := 11, minute := 0, second := 0, microsecond := 0\<rparr>
         else now\<lparr>ordinal := ordinal now + 1, hour := 11, minute := 0, second := 0,
                  microsecond := 0\<rparr>))"
proof (intro conjI impI)
  show "suggest_next_optimal_time p tz now =
     (case add_timedelta now (timedelta_hours 2) of
        Inl err \<Rightarrow> Inl err
      | Inr candidate \<Rightarrow>
          if get_optimal_times p tz = [] then Inr candidate
          else if 11 \<le> hour candidate \<and> hour candidate \<le> 21 then Inr candidate
          else (let snapped = candidate\<lparr>hour := 11, minute := 0, second := 0, microsecond := 0\<rparr>
                in if datetime_less now snapped then Inr snapped
                   else add_timedelta snapped (timedelta_days 1)))"
    by (rule suggest_unfolded)
  show "get_optimal_times p tz = [] \<longleftrightarrow>
          p \<notin> set [''youtube'', ''instagram'', ''facebook'', ''tiktok'']"
    by (rule no_table_entries)
next
  assume a: "valid_datetime now \<and> ordinal now < MAXORDINAL"
  then have v: "valid_datetime now" and r: "ordinal now < MAXORDINAL" by simp_all
  show "suggest_next_optimal_time p tz now = Inr
        (if get_optimal_times p tz = [] \<or> (9 \<le> hour now \<and> hour now \<le> 19)
         then (if hour now < 22 then now\<lparr>hour := hour now + 2\<rparr>
               else now\<lparr>ordinal := ordinal now + 1, hour := hour now - 22\<rparr>)
         else if hour now < 9
         then now\<lparr>hour := 11, minute := 0, second := 0, microsecond := 0\<rparr>
         else now\<lparr>ordinal := ordinal now + 1, hour := 11, minute := 0, second := 0,
                  microsecond := 0\<rparr>)"
    unfolding suggest_closed [OF v] using r by simp
qed

theorem suggest_next_optimal_time_value_witness:
  "valid_datetime (sample_time\<lparr>hour := 3\<rparr>) \<and>
   ordinal (sample_time\<lparr>hour := 3\<rparr>) < MAXORDINAL \<and>
   suggest_next_optimal_time ''tiktok'' ''UTC'' (sample_time\<lparr>hour := 3\<rparr>) =
     Inr (sample_time\<lparr>hour := 11\<rparr>) \<and>
   suggest_next_optimal_time ''unknownplatform'' ''UTC'' (sample_time\<lparr>hour := 3\<rparr>) =
     Inr (sample_time\<lparr>hour := 5\<rparr>)"
proof -
  have h: "valid_datetime (sample_time\<lparr>hour := 3\<rparr>) \<and> ordinal (sample_time\<lparr>hour := 3\<rparr>) < MAXORDINAL"
    by (simp add: valid_datetime_def sample_time_def MAXORDINAL_def)
  have t: "get_optimal_times ''tiktok'' ''UTC'' \<noteq> []" "get_optimal_times ''unknownplatform'' ''UTC'' = []"
    by (simp_all add: get_optimal_times_def optimal_times_table_def)
  note known = suggest_next_optimal_time_value
    [of "''tiktok''" "''UTC''" "sample_time\<lparr>hour := 3\<rparr>", THEN conjunct2, THEN conjunct2, THEN mp, OF h]
  note unknown = suggest_next_optimal_time_value
    [of "''unknownplatform''" "''UTC''" "sample_time\<lparr>hour := 3\<rparr>", THEN conjunct2, THEN conjunct2,
     THEN mp, OF h]
  have k: "suggest_next_optimal_time ''tiktok'' ''UTC'' (sample_time\<lparr>hour := 3\<rparr>) =
     Inr (sample_time\<lparr>hour := 11\<rparr>)"
    unfolding known using t by (simp add: sample_time_def)
  have u: "suggest_next_optimal_time ''unknownplatform'' ''UTC'' (sample_time\<lparr>hour := 3\<rparr>) =
     Inr (sample_time\<lparr>hour := 5\<rparr>)"
    unfolding unknown using t by (simp add: sample_time_def)
  from h k u show ?thesis by simp
qed

text \<open>
  C10: for every platform string and every clock reading \<open>now\<close>, a timestamp returned
  by \<open>suggest_next_optimal_time\<close> is strictly after \<open>now\<close> (and is a well-formed
  datetime), and a timestamp is returned for every \<open>now\<close> before the last
  representable day.
\<close>

theorem suggested_time_after_now:
  assumes "valid_datetime now"
  shows "(\<forall>t. suggest_next_optimal_time p tz now = Inr t \<longrightarrow>
            datetime_less now t \<and> valid_datetime t) \<and>
         (ordinal now < MAXORDINAL \<longrightarrow> (\<exists>t. suggest_next_optimal_time p tz now = Inr t))"
  using suggest_after_now [OF assms] suggest_returns [OF assms] by blast

theorem suggested_time_after_now_witness:
  "valid_datetime (sample_time\<lparr>hour := 21, minute := 30\<rparr>) \<and>
   suggest_next_optimal_time ''tiktok'' ''UTC'' (sample_time\<lparr>hour := 21, minute := 30\<rparr>) =
     Inr (sample_time\<lparr>ordinal := 741079, hour := 11\<rparr>) \<and>
   datetime_less (sample_time\<lparr>hour := 21, minute := 30\<rparr>)
                 (sample_time\<lparr>ordinal := 741079, hour := 11\<rparr>)"
proof -
  have h: "valid_datetime (sample_time\<lparr>hour := 21, minute := 30\<rparr>)"
    by (simp add: valid_datetime_def sample_time_def MAXORDINAL_def)
  have r: "suggest_next_optimal_time ''tiktok'' ''UTC'' (sample_time\<lparr>hour := 21, minute := 30\<rparr>) =
     Inr (sample_time\<lparr>ordinal := 741079, hour := 11\<rparr>)"
    unfolding suggest_closed [OF h]
    by (simp add: get_optimal_times_def optimal_times_table_def sample_time_def MAXORDINAL_def)
  show ?thesis
    using h r suggested_time_after_now [OF h, of "''tiktok''" "''UTC''"] by simp
qed

section \<open>File classification\<close>

lemma split_str_not_Nil: "split_str sep s \<noteq> []"
  by (induction s) (auto split: list.splits)

lemma split_str_no_sep: "sep \<notin> set s \<Longrightarrow> split_str sep s = [s]"
  by (induction s) auto

lemma split_str_append:
  "\<exists>x xs. split_str sep (a @ sep # b) = x # xs @ split_str sep b"
proof (induction a)
  case Nil
  have "split_str sep ([] @ sep # b) = [] # [] @ split_str sep b" by simp
  then show ?case by blast
next
  case (Cons c a)
  then obtain x xs where IH: "split_str sep (a @ sep # b) = x # xs @ split_str sep b"
    by blast
  show ?case
  proof (cases "c = sep")
    case True
    with IH have "split_str sep ((c # a) @ sep # b) = [] # (x # xs) @ split_str sep b"
      by simp
    then show ?thesis by blast
  next
    case False
    with IH have "split_str sep ((c # a) @ sep # b) = (c # x) # xs @ split_str sep b"
      by simp
    then show ?thesis by blast
  qed
qed

lemma last_split_str_append:
  "last (split_str sep (a @ sep # b)) = last (split_str sep b)"
proof -
  obtain x xs where "split_str sep (a @ sep # b) = x # xs @ split_str sep b"
    using split_str_append by blast
  then show ?thesis
    by (simp add: split_str_not_Nil)
qed

lemma file_extension_after_last_dot:
  assumes "CHR ''.'' \<notin> set ext"
  shows "file_extension (stem @ ''.'' @ ext) = lower ext" and "file_extension ext = lower ext"
  using assms
  by (simp_all add: file_extension_def last_split_str_append split_str_no_sep)


text \<open>
  C7, as stated, fails for one adapter: the YouTube adapter never looks at the path.
  For \<open>photo.png\<close>, which is not a video by its extension, it answers as for
  \<open>video.mp4\<close>, with the video result.
\<close>

theorem youtube_ignores_extension:
  "\<not> is_video ''photo.png'' \<and>
   upload_media sample_env YouTubeService_init ''photo.png'' [] ''token'' =
     Inr [(''success'', PBool True),
          (''platform'', PStr ''youtube''),
          (''video_id'', PStr ''mock_youtube_video_id''),
          (''url'', PStr ''https://youtube.com/watch?v=mock_video_id''),
          (''message'', PStr ''Video uploaded successfully to YouTube'')] \<and>
   upload_media sample_env YouTubeService_init ''photo.png'' [] ''token'' =
     upload_media sample_env YouTubeService_init ''video.mp4'' [] ''token''"
proof -
  have "\<not> is_video ''photo.png''" by code_simp
  then show ?thesis by (simp add: YouTubeService_init_def)
qed

text \<open>
  C7, amended: the Instagram, Facebook and TikTok adapters classify the asset by the
  text after the last dot of the path (the whole path when it has no dot), lowercased:
  when it is \<open>mp4\<close>, \<open>mov\<close> or \<open>avi\<close> they build the video request (Instagram's
  container with \<open>video_url\<close> and \<open>media_type = VIDEO\<close>, Facebook's \<open>/videos\<close> endpoint,
  TikTok's \<open>video/init\<close> endpoint), and for every other path the image or photo
  request (\<open>image_url\<close>, \<open>/photos\<close>, \<open>content/init\<close> with \<open>media_type = PHOTO\<close>).
\<close>

theorem adapters_classify_by_extension:
  "(CHR ''.'' \<notin> set ext \<longrightarrow>
      (is_video (stem @ ''.'' @ ext) \<longleftrightarrow> lower ext \<in> set [''mp4'', ''mov'', ''avi'']) \<and>
      (is_video ext \<longleftrightarrow> lower ext \<in> set [''mp4'', ''mov'', ''avi''])) \<and>
   (is_video path \<longrightarrow>
      map_of (instagram_container_data path metadata access_token) ''media_type''
        = Some (PStr ''VIDEO'') \<and>
      map_of (instagram_container_data path metadata access_token) ''video_url''
        = Some (get metadata ''media_url'') \<and>
      map_of (instagram_container_data path metadata access_token) ''image_url'' = None \<and>
      fst (facebook_upload_request e api_base api_version path metadata access_token) =
        api_base @ ''/'' @ api_version @ ''/'' @
        py_str e (get_default metadata ''page_id'' (PStr ''mock_page_id'')) @ ''/videos'' \<and>
      fst (tiktok_upload_request api_base api_version path metadata) =
        api_base @ ''/'' @ api_version @ ''/post/publish/video/init/'' \<and>
      map_of (snd (tiktok_upload_request api_base api_version path metadata)) ''media_type''
        = None) \<and>
   (\<not> is_video path \<longrightarrow>
      map_of (instagram_container_data path metadata access_token) ''image_url''
        = Some (get metadata ''media_url'') \<and>
      map_of (instagram_container_data path metadata access_token) ''video_url'' = None \<and>
      map_of (instagram_container_data path metadata access_token) ''media_type'' = None \<and>
      fst (facebook_upload_request e api_base api_version path metadata access_token) =
        api_base @ ''/'' @ api_version @ ''/'' @
        py_str e (get_default metadata ''page_id'' (PStr ''mock_page_id'')) @ ''/photos'' \<and>
      fst (tiktok_upload_request api_base api_version path metadata) =
        api_base @ ''/'' @ api_version @ ''/post/publish/content/init/'' \<and>
      map_of (snd (tiktok_upload_request api_base api_version path metadata)) ''media_type''
        = Some (PStr ''PHOTO''))"
proof (intro conjI impI)
  assume "CHR ''.'' \<notin> set ext"
  note fe = file_extension_after_last_dot [OF this]
  show "is_video (stem @ ''.'' @ ext) \<longleftrightarrow> lower ext \<in> set [''mp4'', ''mov'', ''avi'']"
    unfolding is_video_def fe(1) ..
  show "is_video ext \<longleftrightarrow> lower ext \<in> set [''mp4'', ''mov'', ''avi'']"
    unfolding is_video_def fe(2) ..
qed (simp_all add: instagram_container_data_def facebook_upload_request_def
       tiktok_upload_request_def Let_def)

theorem adapters_classify_by_extension_witness:
  "CHR ''.'' \<notin> set ''MOV'' \<and>
   is_video ''uploads/clip.MOV'' \<and>
   fst (tiktok_upload_request ''https://open.tiktokapis.com'' ''v2'' ''uploads/clip.MOV'' []) =
     ''https://open.tiktokapis.com/v2/post/publish/video/init/'' \<and>
   \<not> is_video ''photo.png'' \<and>
   map_of (instagram_container_data ''photo.png'' [] ''token'') ''image_url'' = Some PNone"
proof -
  have h: "CHR ''.'' \<notin> set ''MOV''" by simp
  have l: "lower ''MOV'' = ''mov''" by code_simp
  have n: "\<not> is_video ''photo.png''" by code_simp
  note a = adapters_classify_by_extension
    [of "''MOV''" "''uploads/clip''" "''uploads/clip.MOV''" "[]" "''token''" sample_env
        "''https://open.tiktokapis.com''" "''v2''"]
  note b = adapters_classify_by_extension
    [of "''MOV''" "''uploads/clip''" "''photo.png''" "[]" "''token''" sample_env
        "''https://open.tiktokapis.com''" "''v2''"]
  from a h l have v: "is_video ''uploads/clip.MOV''" by simp
  with a have t: "fst (tiktok_upload_request ''https://open.tiktokapis.com'' ''v2''
                         ''uploads/clip.MOV'' []) =
                  ''https://open.tiktokapis.com/v2/post/publish/video/init/''"
    by simp
  from b n have i: "map_of (instagram_container_data ''photo.png'' [] ''token'') ''image_url''
                    = Some PNone"
    by (simp add: get_def)
  from h v t n i show ?thesis by simp
qed

end
